theory Spec2Isabelle
  imports Main
begin

section \<open>Data model (types/chat.ts)\<close>

text \<open>
  The chat client of Talk2Data: the message types and their constructors (types/chat.ts),
  the reducer store (contexts/ChatContext.tsx), the operations of the hook
  (hooks/useChat.ts) and the two components that call them (Sidebar, ChatInterface).
  JavaScript numbers that carry identifiers, clock readings and progress
  values are integers here; \<open>T | null\<close> and optional fields are \<open>T option\<close>, where
  \<open>None\<close> stands for both \<open>null\<close> and \<open>undefined\<close> (the display components test
  these fields for truthiness only). Field names that several types share carry a prefix:
  \<open>conv_id\<close> is \<open>Conversation.id\<close>; \<open>api_id\<close>, \<open>api_content\<close> and
  \<open>api_timestamp\<close> are \<open>id\<close>, \<open>content\<close> and \<open>timestamp\<close> of
  \<open>ApiMessageType\<close>; \<open>msg_id\<close> and \<open>msg_error\<close> are \<open>id\<close> and \<open>error\<close> of
  \<open>MessageType\<close>.
\<close>

record Conversation =
  conv_id :: int
  title :: string
  created_at :: string
  updated_at :: string

record ApiMessageType =
  api_id :: int
  conversation_id :: int
  user_id :: "int option"
  api_content :: string
  content_type :: "string option"
  file_path :: "string option"
  api_timestamp :: string
  is_from_user :: bool

record MessageType =
  msg_id :: string
  content :: string
  isUser :: bool
  timestamp :: string
  contentType :: "string option"
  filePath :: "string option"
  msg_error :: "string option"

record ProgressStatus =
  isActive :: bool
  progress :: int
  stage :: string

text \<open>
  The functions of the JavaScript runtime that the code calls are parameters of the
  model: \<open>Number.prototype.toString\<close>, \<open>new Date(s).toLocaleTimeString()\<close> for a
  timestamp string \<open>s\<close>, \<open>new Date().toLocaleTimeString()\<close> at the clock reading
  (the milliseconds of \<open>Date.now()\<close>) of the call, and \<open>String.prototype.trim\<close>.
\<close>

record platform =
  Number_toString :: "int \<Rightarrow> string"
  Date_toLocaleTimeString :: "string \<Rightarrow> string"
  now_toLocaleTimeString :: "int \<Rightarrow> string"
  String_trim :: "string \<Rightarrow> string"

text \<open>\<open>x || undefined\<close> for \<open>x : string | null\<close>: the falsy values are \<open>null\<close> and
  the empty string.\<close>

definition or_undefined :: "string option \<Rightarrow> string option" where
  "or_undefined x = (case x of None \<Rightarrow> None | Some s \<Rightarrow> if s = [] then None else Some s)"

definition convertApiMessage :: "platform \<Rightarrow> ApiMessageType \<Rightarrow> MessageType" where
  "convertApiMessage pf apiMessage =
     \<lparr> msg_id = Number_toString pf (api_id apiMessage),
       content = api_content apiMessage,
       isUser = is_from_user apiMessage,
       timestamp = Date_toLocaleTimeString pf (api_timestamp apiMessage),
       contentType = or_undefined (content_type apiMessage),
       filePath = or_undefined (file_path apiMessage),
       msg_error = None \<rparr>"

text \<open>The source's string literals outside ASCII are given by their UTF-8 bytes. Each
  constant is named after the operation that reports it.\<close>

definition err_fetchHistory :: string where
  "err_fetchHistory =
    [CHR 0xE8, CHR 0x8E, CHR 0xB7, CHR 0xE5, CHR 0x8F, CHR 0x96, CHR 0xE5, CHR 0xAF, CHR 0xB9,
     CHR 0xE8, CHR 0xAF, CHR 0x9D, CHR 0xE5, CHR 0x8E, CHR 0x86, CHR 0xE5, CHR 0x8F, CHR 0xB2,
     CHR 0xE5, CHR 0xA4, CHR 0xB1, CHR 0xE8, CHR 0xB4, CHR 0xA5, CHR 0xEF, CHR 0xBC, CHR 0x8C,
     CHR 0xE8, CHR 0xAF, CHR 0xB7, CHR 0xE7, CHR 0xA8, CHR 0x8D, CHR 0xE5, CHR 0x90, CHR 0x8E,
     CHR 0xE5, CHR 0x86, CHR 0x8D, CHR 0xE8, CHR 0xAF, CHR 0x95]"

definition err_selectConversation :: string where
  "err_selectConversation =
    [CHR 0xE8, CHR 0x8E, CHR 0xB7, CHR 0xE5, CHR 0x8F, CHR 0x96, CHR 0xE5, CHR 0xAF, CHR 0xB9,
     CHR 0xE8, CHR 0xAF, CHR 0x9D, CHR 0xE6, CHR 0xB6, CHR 0x88, CHR 0xE6, CHR 0x81, CHR 0xAF,
     CHR 0xE5, CHR 0xA4, CHR 0xB1, CHR 0xE8, CHR 0xB4, CHR 0xA5, CHR 0xEF, CHR 0xBC, CHR 0x8C,
     CHR 0xE8, CHR 0xAF, CHR 0xB7, CHR 0xE7, CHR 0xA8, CHR 0x8D, CHR 0xE5, CHR 0x90, CHR 0x8E,
     CHR 0xE5, CHR 0x86, CHR 0x8D, CHR 0xE8, CHR 0xAF, CHR 0x95]"

definition err_deleteConversation :: string where
  "err_deleteConversation =
    [CHR 0xE5, CHR 0x88, CHR 0xA0, CHR 0xE9, CHR 0x99, CHR 0xA4, CHR 0xE5, CHR 0xAF, CHR 0xB9,
     CHR 0xE8, CHR 0xAF, CHR 0x9D, CHR 0xE5, CHR 0xA4, CHR 0xB1, CHR 0xE8, CHR 0xB4, CHR 0xA5,
     CHR 0xEF, CHR 0xBC, CHR 0x8C, CHR 0xE8, CHR 0xAF, CHR 0xB7, CHR 0xE7, CHR 0xA8, CHR 0x8D,
     CHR 0xE5, CHR 0x90, CHR 0x8E, CHR 0xE5, CHR 0x86, CHR 0x8D, CHR 0xE8, CHR 0xAF, CHR 0x95]"

definition err_polling :: string where
  "err_polling =
    [CHR 0xE8, CHR 0xBD, CHR 0xAE, CHR 0xE8, CHR 0xAF, CHR 0xA2, CHR 0xE7, CHR 0x8A, CHR 0xB6,
     CHR 0xE6, CHR 0x80, CHR 0x81, CHR 0xE5, CHR 0xA4, CHR 0xB1, CHR 0xE8, CHR 0xB4, CHR 0xA5,
     CHR 0xEF, CHR 0xBC, CHR 0x8C, CHR 0xE8, CHR 0xAF, CHR 0xB7, CHR 0xE5, CHR 0x88, CHR 0xB7,
     CHR 0xE6, CHR 0x96, CHR 0xB0, CHR 0xE9, CHR 0xA1, CHR 0xB5, CHR 0xE9, CHR 0x9D, CHR 0xA2,
     CHR 0xE5, CHR 0x86, CHR 0x8D, CHR 0xE8, CHR 0xAF, CHR 0x95]"

definition err_sendMessage :: string where
  "err_sendMessage =
    [CHR 0xE5, CHR 0x8F, CHR 0x91, CHR 0xE9, CHR 0x80, CHR 0x81, CHR 0xE6, CHR 0xB6, CHR 0x88,
     CHR 0xE6, CHR 0x81, CHR 0xAF, CHR 0xE5, CHR 0xA4, CHR 0xB1, CHR 0xE8, CHR 0xB4, CHR 0xA5,
     CHR 0xEF, CHR 0xBC, CHR 0x8C, CHR 0xE8, CHR 0xAF, CHR 0xB7, CHR 0xE7, CHR 0xA8, CHR 0x8D,
     CHR 0xE5, CHR 0x90, CHR 0x8E, CHR 0xE5, CHR 0x86, CHR 0x8D, CHR 0xE8, CHR 0xAF, CHR 0x95]"

definition errorMessage_content :: string where
  "errorMessage_content =
    [CHR 0xE5, CHR 0x8F, CHR 0x91, CHR 0xE7, CHR 0x94, CHR 0x9F, CHR 0xE9, CHR 0x94, CHR 0x99,
     CHR 0xE8, CHR 0xAF, CHR 0xAF]"

text \<open>Both clock reads of one constructor call are taken at the same reading \<open>now\<close>.\<close>

definition createUserMessage :: "platform \<Rightarrow> int \<Rightarrow> string \<Rightarrow> MessageType" where
  "createUserMessage pf now c =
     \<lparr> msg_id = Number_toString pf now,
       content = c,
       isUser = True,
       timestamp = now_toLocaleTimeString pf now,
       contentType = None,
       filePath = None,
       msg_error = None \<rparr>"

definition createErrorMessage :: "platform \<Rightarrow> int \<Rightarrow> string \<Rightarrow> MessageType" where
  "createErrorMessage pf now errorText =
     \<lparr> msg_id = Number_toString pf (now + 1),
       content = errorMessage_content,
       isUser = False,
       timestamp = now_toLocaleTimeString pf now,
       contentType = Some ''error'',
       filePath = None,
       msg_error = Some errorText \<rparr>"

section \<open>The store (contexts/ChatContext.tsx)\<close>

record ChatState =
  conversations :: "Conversation list"
  selectedConversationId :: "int option"
  messages :: "MessageType list"
  isLoadingHistory :: bool
  isLoadingMessages :: bool
  isSendingMessage :: bool
  currentJobId :: "string option"
  currentJobProgress :: ProgressStatus
  error :: "string option"

datatype ChatAction =
    SET_CONVERSATIONS "Conversation list"
  | SELECT_CONVERSATION "int option"
  | SET_MESSAGES "MessageType list"
  | ADD_MESSAGE MessageType
  | SET_LOADING_HISTORY bool
  | SET_LOADING_MESSAGES bool
  | SET_SENDING_MESSAGE bool
  | SET_CURRENT_JOB_ID "string option"
  | SET_CURRENT_JOB_PROGRESS ProgressStatus
  | SET_ERROR "string option"
  | CLEAR_ERROR

definition inactiveProgress :: ProgressStatus where
  "inactiveProgress = \<lparr> isActive = False, progress = 0, stage = [] \<rparr>"

definition initialState :: ChatState where
  "initialState =
     \<lparr> conversations = [],
       selectedConversationId = None,
       messages = [],
       isLoadingHistory = False,
       isLoadingMessages = False,
       isSendingMessage = False,
       currentJobId = None,
       currentJobProgress = inactiveProgress,
       error = None \<rparr>"

fun chatReducer :: "ChatState \<Rightarrow> ChatAction \<Rightarrow> ChatState" where
  "chatReducer s (SET_CONVERSATIONS p) = s\<lparr>conversations := p\<rparr>"
| "chatReducer s (SELECT_CONVERSATION p) = s\<lparr>selectedConversationId := p\<rparr>"
| "chatReducer s (SET_MESSAGES p) = s\<lparr>messages := p\<rparr>"
| "chatReducer s (ADD_MESSAGE p) = s\<lparr>messages := messages s @ [p]\<rparr>"
| "chatReducer s (SET_LOADING_HISTORY p) = s\<lparr>isLoadingHistory := p\<rparr>"
| "chatReducer s (SET_LOADING_MESSAGES p) = s\<lparr>isLoadingMessages := p\<rparr>"
| "chatReducer s (SET_SENDING_MESSAGE p) = s\<lparr>isSendingMessage := p\<rparr>"
| "chatReducer s (SET_CURRENT_JOB_ID p) = s\<lparr>currentJobId := p\<rparr>"
| "chatReducer s (SET_CURRENT_JOB_PROGRESS p) = s\<lparr>currentJobProgress := p\<rparr>"
| "chatReducer s (SET_ERROR p) = s\<lparr>error := p\<rparr>"
| "chatReducer s CLEAR_ERROR = s\<lparr>error := None\<rparr>"

section \<open>The hook (hooks/useChat.ts) and its two instances\<close>

text \<open>
  Every operation of the hook is an asynchronous function: it runs to its next \<open>await\<close>
  without interruption, and any other task may run before the awaited request is answered.
  The model therefore has one function per uninterrupted segment: \<open>f_begin\<close> runs from
  the call up to the \<open>await\<close> and records the suspended call in \<open>inflight\<close>;
  \<open>f_resume\<close> runs from the answer to the end (or to the next \<open>await\<close>).

  A suspended call keeps the values its closure captured: the callbacks are created per
  render, so \<open>conversations\<close> and \<open>selectedConversationId\<close> inside a callback are the
  store's values at the render that created it, not the store's values when the code runs.
  A call from the user interface uses the callbacks of the latest render, so its captured
  values are the store's at the moment of the call; a continuation after an \<open>await\<close> and
  the interval callback keep the values captured then.

  The store is shared through the context, but the two references of the hook
  (\<open>useRef\<close>) belong to the component that calls \<open>useChat()\<close>. The application mounts
  two such components side by side (Layout): the Sidebar, which calls \<open>fetchHistory\<close>,
  \<open>selectConversation\<close>, \<open>createNewConversation\<close> and \<open>deleteConversation\<close>, and
  the ChatInterface, which calls \<open>sendMessage\<close>. Every operation below takes the
  instance it runs in and reads and writes that instance's references only; a suspended
  call and a timer belong to the instance that created them. Both components stay mounted
  for the whole run, so each keeps its references. The references are shared
  mutable cells within their instance and are always read at their current value.
\<close>

datatype component = Sidebar | ChatInterface

text \<open>The references of one instance of the hook.\<close>

record hook =
  pollingIntervalRef :: "nat option"
  newConversationIdRef :: "int option"

text \<open>What the interval callback still has to do when an awaited call inside it returns.\<close>

datatype cont =
    Ret
  | K_tick_selected int
  | K_tick_history

text \<open>A suspended call: the request it awaits, with the captured values that its
  continuation uses.\<close>

datatype task =
    T_fetchHistory cont
  | T_selectConversation int cont
  | T_deleteConversation int "Conversation list" "int option"
  | T_sendMessage string "int option"
  | T_tick string "int option"

text \<open>The answers of the API client (lib/api.ts); \<open>Failed\<close> is a rejected promise.\<close>

datatype response =
    Failed
  | Conversations "Conversation list"
  | Messages "ApiMessageType list"
  | Deleted
  | Submitted string int
  | JobStatus string int string

text \<open>
  The running application: the store, the references of the two instances, the live
  timers of \<open>window.setInterval\<close> (each with its owner and with the job id and the
  selected id its callback captured), the next handle \<open>setInterval\<close> returns, and the
  requests in flight with the instance whose call awaits them.
\<close>

record app =
  state :: ChatState
  sidebar :: hook
  chatInterface :: hook
  intervals :: "(nat \<times> component \<times> string \<times> int option) list"
  nextHandle :: nat
  inflight :: "(component \<times> task) list"

definition init_hook :: hook where
  "init_hook = \<lparr> pollingIntervalRef = None, newConversationIdRef = None \<rparr>"

definition init_app :: app where
  "init_app =
     \<lparr> state = initialState,
       sidebar = init_hook,
       chatInterface = init_hook,
       intervals = [],
       nextHandle = 1,
       inflight = [] \<rparr>"

definition hook_of :: "component \<Rightarrow> app \<Rightarrow> hook" where
  "hook_of i a = (case i of Sidebar \<Rightarrow> sidebar a | ChatInterface \<Rightarrow> chatInterface a)"

definition set_pollingIntervalRef :: "component \<Rightarrow> nat option \<Rightarrow> app \<Rightarrow> app" where
  "set_pollingIntervalRef i v a =
     (case i of
        Sidebar \<Rightarrow> a\<lparr>sidebar := (sidebar a)\<lparr>pollingIntervalRef := v\<rparr>\<rparr>
      | ChatInterface \<Rightarrow> a\<lparr>chatInterface := (chatInterface a)\<lparr>pollingIntervalRef := v\<rparr>\<rparr>)"

definition set_newConversationIdRef :: "component \<Rightarrow> int option \<Rightarrow> app \<Rightarrow> app" where
  "set_newConversationIdRef i v a =
     (case i of
        Sidebar \<Rightarrow> a\<lparr>sidebar := (sidebar a)\<lparr>newConversationIdRef := v\<rparr>\<rparr>
      | ChatInterface \<Rightarrow> a\<lparr>chatInterface := (chatInterface a)\<lparr>newConversationIdRef := v\<rparr>\<rparr>)"

definition dispatch :: "ChatAction \<Rightarrow> app \<Rightarrow> app" where
  "dispatch act a = a\<lparr>state := chatReducer (state a) act\<rparr>"

definition await_request :: "component \<Rightarrow> task \<Rightarrow> app \<Rightarrow> app" where
  "await_request i t a = a\<lparr>inflight := inflight a @ [(i, t)]\<rparr>"

definition clearInterval :: "nat \<Rightarrow> app \<Rightarrow> app" where
  "clearInterval t a = a\<lparr>intervals := filter (\<lambda>e. fst e \<noteq> t) (intervals a)\<rparr>"

definition clearPolling :: "component \<Rightarrow> app \<Rightarrow> app" where
  "clearPolling i a =
     (case pollingIntervalRef (hook_of i a) of
        None \<Rightarrow> a
      | Some t \<Rightarrow> set_pollingIntervalRef i None (clearInterval t a))"

definition reset_progress :: "app \<Rightarrow> app" where
  "reset_progress a = dispatch (SET_CURRENT_JOB_PROGRESS inactiveProgress) a"

definition fetchHistory_begin :: "component \<Rightarrow> cont \<Rightarrow> app \<Rightarrow> app" where
  "fetchHistory_begin i k a =
     await_request i (T_fetchHistory k)
       (dispatch (SET_ERROR None) (dispatch (SET_LOADING_HISTORY True) a))"

text \<open>The rest of the interval callback after an awaited call inside it has returned:
  after \<open>await selectConversation(conversationIdToLoad)\<close> the anchor is compared with the
  loaded id, cleared and the history fetched; then the progress is reset.\<close>

fun continue :: "component \<Rightarrow> cont \<Rightarrow> app \<Rightarrow> app" where
  "continue i Ret a = a"
| "continue i (K_tick_selected n) a =
     (if newConversationIdRef (hook_of i a) = Some n
      then fetchHistory_begin i K_tick_history (set_newConversationIdRef i None a)
      else reset_progress a)"
| "continue i K_tick_history a = reset_progress a"

definition fetchHistory_resume ::
  "component \<Rightarrow> Conversation list option \<Rightarrow> cont \<Rightarrow> app \<Rightarrow> app" where
  "fetchHistory_resume i r k a =
     continue i k
       (dispatch (SET_LOADING_HISTORY False)
          (case r of
             Some conversationsData \<Rightarrow> dispatch (SET_CONVERSATIONS conversationsData) a
           | None \<Rightarrow> dispatch (SET_ERROR (Some err_fetchHistory)) a))"

definition selectConversation_begin :: "component \<Rightarrow> int option \<Rightarrow> cont \<Rightarrow> app \<Rightarrow> app" where
  "selectConversation_begin i sel k a =
     (let a1 = dispatch (SELECT_CONVERSATION sel) a in
      case sel of
        None \<Rightarrow> continue i k (dispatch (SET_MESSAGES []) a1)
      | Some n \<Rightarrow>
          await_request i (T_selectConversation n k)
            (dispatch (SET_ERROR None) (dispatch (SET_LOADING_MESSAGES True) a1)))"

definition selectConversation_resume ::
  "platform \<Rightarrow> component \<Rightarrow> ApiMessageType list option \<Rightarrow> cont \<Rightarrow> app \<Rightarrow> app" where
  "selectConversation_resume pf i r k a =
     continue i k
       (dispatch (SET_LOADING_MESSAGES False)
          (case r of
             Some messagesData \<Rightarrow>
               dispatch (SET_MESSAGES (map (convertApiMessage pf) messagesData)) a
           | None \<Rightarrow> dispatch (SET_ERROR (Some err_selectConversation)) a))"

definition createNewConversation :: "component \<Rightarrow> app \<Rightarrow> app" where
  "createNewConversation i a =
     dispatch (SET_ERROR None)
       (dispatch (SET_MESSAGES [])
          (dispatch (SELECT_CONVERSATION None) (clearPolling i a)))"

definition deleteConversation_begin :: "component \<Rightarrow> int \<Rightarrow> app \<Rightarrow> app" where
  "deleteConversation_begin i n a =
     (let currentConversations = conversations (state a);
          sel = selectedConversationId (state a) in
      await_request i (T_deleteConversation n currentConversations sel)
        (dispatch (SET_CONVERSATIONS (filter (\<lambda>conv. conv_id conv \<noteq> n) currentConversations))
           (dispatch (SET_ERROR None) a)))"

definition deleteConversation_resume ::
  "bool \<Rightarrow> int \<Rightarrow> Conversation list \<Rightarrow> int option \<Rightarrow> app \<Rightarrow> app" where
  "deleteConversation_resume ok n currentConversations sel a =
     (if ok
      then (if sel = Some n
            then dispatch (SET_MESSAGES []) (dispatch (SELECT_CONVERSATION None) a)
            else a)
      else dispatch (SET_CONVERSATIONS currentConversations)
             (dispatch (SET_ERROR (Some err_deleteConversation)) a))"

definition startPolling :: "component \<Rightarrow> string \<Rightarrow> int option \<Rightarrow> app \<Rightarrow> app" where
  "startPolling i jobId sel a =
     (let a1 = clearPolling i a;
          interval = nextHandle a1 in
      set_pollingIntervalRef i (Some interval)
        (a1\<lparr> intervals := intervals a1 @ [(interval, i, jobId, sel)],
             nextHandle := Suc interval \<rparr>))"

definition terminal_status :: "string \<Rightarrow> bool" where
  "terminal_status s \<longleftrightarrow> s = ''completed'' \<or> s = ''failed'' \<or> s = ''error''"

text \<open>The interval callback: \<open>tick_begin\<close> issues the status request;
  \<open>tick_resume\<close> is the callback from the answer on, \<open>None\<close> being the \<open>catch\<close>
  branch.\<close>

definition tick_begin :: "component \<Rightarrow> string \<Rightarrow> int option \<Rightarrow> app \<Rightarrow> app" where
  "tick_begin i jobId sel a = await_request i (T_tick jobId sel) a"

definition tick_resume ::
  "component \<Rightarrow> (string \<times> int \<times> string) option \<Rightarrow> int option \<Rightarrow> app \<Rightarrow> app" where
  "tick_resume i r sel a =
     (case r of
        None \<Rightarrow>
          reset_progress
            (dispatch (SET_ERROR (Some err_polling))
               (dispatch (SET_SENDING_MESSAGE False) (clearPolling i a)))
      | Some (status, prog, stg) \<Rightarrow>
          (let a1 = dispatch (SET_CURRENT_JOB_PROGRESS
                      \<lparr> isActive = True, progress = prog, stage = stg \<rparr>) a in
           if terminal_status status
           then (let a2 = dispatch (SET_SENDING_MESSAGE False) (clearPolling i a1);
                     conversationIdToLoad =
                       (case newConversationIdRef (hook_of i a2) of
                          Some anchor \<Rightarrow> Some anchor
                        | None \<Rightarrow> sel) in
                 case conversationIdToLoad of
                   Some n \<Rightarrow> selectConversation_begin i (Some n) (K_tick_selected n) a2
                 | None \<Rightarrow> reset_progress a2)
           else a1))"

definition sendMessage_begin :: "platform \<Rightarrow> component \<Rightarrow> int \<Rightarrow> string \<Rightarrow> app \<Rightarrow> app" where
  "sendMessage_begin pf i now c a =
     (let sel = selectedConversationId (state a);
          a1 = set_newConversationIdRef i None a;
          a2 = dispatch (SET_ERROR None) (dispatch (SET_SENDING_MESSAGE True) a1);
          a3 = dispatch (ADD_MESSAGE (createUserMessage pf now c)) a2 in
      await_request i (T_sendMessage c sel) a3)"

definition sendMessage_resume ::
  "platform \<Rightarrow> component \<Rightarrow> int \<Rightarrow> (string \<times> int) option \<Rightarrow> int option \<Rightarrow> app \<Rightarrow> app" where
  "sendMessage_resume pf i now r sel a =
     (case r of
        Some (jobId, new_id) \<Rightarrow>
          (let a1 = (if sel = None then set_newConversationIdRef i (Some new_id) a else a)
           in startPolling i jobId sel (dispatch (SET_CURRENT_JOB_ID (Some jobId)) a1))
      | None \<Rightarrow>
          dispatch (ADD_MESSAGE (createErrorMessage pf now err_sendMessage))
            (dispatch (SET_ERROR (Some err_sendMessage))
               (dispatch (SET_SENDING_MESSAGE False) a)))"

section \<open>The callers (Sidebar, ChatInterface)\<close>

text \<open>
  \<open>sendMessage\<close> has one call site, \<open>handleSendMessage\<close> of the ChatInterface, which
  returns at once when the trimmed content is empty. \<open>sendMessage\<close> catches every error
  itself, so the \<open>catch\<close> branch of \<open>handleSendMessage\<close> (a development fallback) never
  runs; what follows the awaited call there touches the component's own input state only.
\<close>

definition handleSendMessage :: "platform \<Rightarrow> int \<Rightarrow> string \<Rightarrow> app \<Rightarrow> app" where
  "handleSendMessage pf now c a =
     (if String_trim pf c = [] then a else sendMessage_begin pf ChatInterface now c a)"

section \<open>Executions\<close>

text \<open>
  What can happen to the application: the Sidebar fetches the history (on mount), the user
  clicks a conversation, the new-conversation button or (confirming) a delete button in
  the Sidebar, the ChatInterface is handed a message to send, a live timer fires, or the
  request at position \<open>n\<close> of \<open>inflight\<close> is answered. \<open>SendMessage\<close> and \<open>Reply\<close>
  carry the clock reading of the moment, for the messages synthesized there. \<open>step\<close> is
  \<open>None\<close> for an event that cannot happen in the state: a handle that is not live, no
  such request in flight, or an answer of the wrong kind. The model allows more than the
  interface does in two respects: a conversation can be clicked whether or not it is
  listed, and a message can be handed over while the input is disabled.
\<close>

datatype event =
    FetchHistory
  | SelectConversation int
  | CreateNewConversation
  | DeleteConversation int
  | SendMessage string int
  | Fire nat
  | Reply nat response int

definition resume ::
  "platform \<Rightarrow> int \<Rightarrow> component \<Rightarrow> task \<Rightarrow> response \<Rightarrow> app \<Rightarrow> app option" where
  "resume pf now i tk r a =
     (case tk of
        T_fetchHistory k \<Rightarrow>
          (case r of
             Conversations cs \<Rightarrow> Some (fetchHistory_resume i (Some cs) k a)
           | Failed \<Rightarrow> Some (fetchHistory_resume i None k a)
           | _ \<Rightarrow> None)
      | T_selectConversation n k \<Rightarrow>
          (case r of
             Messages ms \<Rightarrow> Some (selectConversation_resume pf i (Some ms) k a)
           | Failed \<Rightarrow> Some (selectConversation_resume pf i None k a)
           | _ \<Rightarrow> None)
      | T_deleteConversation n cur sel \<Rightarrow>
          (case r of
             Deleted \<Rightarrow> Some (deleteConversation_resume True n cur sel a)
           | Failed \<Rightarrow> Some (deleteConversation_resume False n cur sel a)
           | _ \<Rightarrow> None)
      | T_sendMessage c sel \<Rightarrow>
          (case r of
             Submitted j cid \<Rightarrow> Some (sendMessage_resume pf i now (Some (j, cid)) sel a)
           | Failed \<Rightarrow> Some (sendMessage_resume pf i now None sel a)
           | _ \<Rightarrow> None)
      | T_tick j sel \<Rightarrow>
          (case r of
             JobStatus st p g \<Rightarrow> Some (tick_resume i (Some (st, p, g)) sel a)
           | Failed \<Rightarrow> Some (tick_resume i None sel a)
           | _ \<Rightarrow> None))"

fun step :: "platform \<Rightarrow> event \<Rightarrow> app \<Rightarrow> app option" where
  "step pf FetchHistory a = Some (fetchHistory_begin Sidebar Ret a)"
| "step pf (SelectConversation n) a = Some (selectConversation_begin Sidebar (Some n) Ret a)"
| "step pf CreateNewConversation a = Some (createNewConversation Sidebar a)"
| "step pf (DeleteConversation n) a = Some (deleteConversation_begin Sidebar n a)"
| "step pf (SendMessage c now) a = Some (handleSendMessage pf now c a)"
| "step pf (Fire t) a =
     (case map_of (intervals a) t of
        Some (i, jobId, sel) \<Rightarrow> Some (tick_begin i jobId sel a)
      | None \<Rightarrow> None)"
| "step pf (Reply n r now) a =
     (if n < length (inflight a)
      then resume pf now (fst (inflight a ! n)) (snd (inflight a ! n)) r
             (a\<lparr>inflight := take n (inflight a) @ drop (Suc n) (inflight a)\<rparr>)
      else None)"

fun run :: "platform \<Rightarrow> event list \<Rightarrow> app \<Rightarrow> app option" where
  "run pf [] a = Some a"
| "run pf (e # es) a = (case step pf e a of None \<Rightarrow> None | Some a' \<Rightarrow> run pf es a')"

text \<open>
  What every reachable state satisfies: the live timers are exactly the one that the
  ChatInterface's reference names, if any, and belong to the ChatInterface; the Sidebar's
  reference is empty; and every submission and every tick in flight is the
  ChatInterface's.
\<close>

fun owned_by_chat :: "component \<times> task \<Rightarrow> bool" where
  "owned_by_chat (i, T_sendMessage c sel) = (i = ChatInterface)"
| "owned_by_chat (i, T_tick j sel) = (i = ChatInterface)"
| "owned_by_chat _ = True"

definition timers_ok :: "app \<Rightarrow> bool" where
  "timers_ok a \<longleftrightarrow>
     map fst (intervals a)
       = (case pollingIntervalRef (chatInterface a) of None \<Rightarrow> [] | Some t \<Rightarrow> [t])
     \<and> list_all (\<lambda>e. fst (snd e) = ChatInterface) (intervals a)
     \<and> pollingIntervalRef (sidebar a) = None
     \<and> list_all owned_by_chat (inflight a)"

text \<open>A platform to evaluate examples on: decimal digits for integers, the time
  strings left as they are, and \<open>trim\<close> for the ASCII white space.\<close>

fun digits :: "nat \<Rightarrow> string" where
  "digits n =
     (if n < 10 then [''0123456789'' ! n]
      else digits (n div 10) @ [''0123456789'' ! (n mod 10)])"

definition ascii_space :: "char \<Rightarrow> bool" where
  "ascii_space ch \<longleftrightarrow>
     ch = CHR '' '' \<or> ch = CHR 0x09 \<or> ch = CHR 0x0A \<or> ch = CHR 0x0B
     \<or> ch = CHR 0x0C \<or> ch = CHR 0x0D"

definition example_platform :: platform where
  "example_platform =
     \<lparr> Number_toString = (\<lambda>i. if i < 0 then CHR ''-'' # digits (nat (- i)) else digits (nat i)),
       Date_toLocaleTimeString = (\<lambda>s. s),
       now_toLocaleTimeString = (\<lambda>n. ''12:00:00''),
       String_trim = (\<lambda>s. rev (dropWhile ascii_space (rev (dropWhile ascii_space s)))) \<rparr>"

text \<open>The events that answer a submission successfully: the only ones whose handling
  writes a conversation id into \<open>newConversationIdRef\<close>.\<close>

fun is_submitted :: "event \<Rightarrow> bool" where
  "is_submitted (Reply n (Submitted j c) now) = True"
| "is_submitted _ = False"

text \<open>Concrete data for the examples.\<close>

definition conv5 :: Conversation where
  "conv5 = \<lparr> conv_id = 5, title = ''five'', created_at = ''2025-01-01'', updated_at = ''2025-01-02'' \<rparr>"

definition conv7 :: Conversation where
  "conv7 = \<lparr> conv_id = 7, title = ''seven'', created_at = ''2025-01-03'', updated_at = ''2025-01-04'' \<rparr>"

definition wire7 :: ApiMessageType where
  "wire7 =
     \<lparr> api_id = 11, conversation_id = 7, user_id = Some 1, api_content = ''revenue 2023'',
       content_type = Some ''text'', file_path = None, api_timestamp = ''2025-01-03T10:00:00'',
       is_from_user = True \<rparr>"

definition wire_empty_type :: ApiMessageType where
  "wire_empty_type =
     \<lparr> api_id = 12, conversation_id = 7, user_id = None, api_content = ''42'',
       content_type = Some [], file_path = None, api_timestamp = ''2025-01-03T10:00:05'',
       is_from_user = False \<rparr>"

definition conv42 :: Conversation where
  "conv42 = \<lparr> conv_id = 42, title = ''revenue 2023'', created_at = ''2025-01-05'', updated_at = ''2025-01-05'' \<rparr>"

definition wire42_question :: ApiMessageType where
  "wire42_question =
     \<lparr> api_id = 101, conversation_id = 42, user_id = Some 1, api_content = ''revenue 2023'',
       content_type = Some ''text'', file_path = None, api_timestamp = ''2025-01-05T09:00:00'',
       is_from_user = True \<rparr>"

definition wire42_answer :: ApiMessageType where
  "wire42_answer =
     \<lparr> api_id = 102, conversation_id = 42, user_id = None, api_content = ''revenue by quarter'',
       content_type = Some ''dataframe_csv_path'', file_path = Some ''out/revenue.csv'',
       api_timestamp = ''2025-01-05T09:00:03'', is_from_user = False \<rparr>"

text \<open>
  A run in which a message sent from the draft state is still unanswered when a second
  one is sent from conversation 5. Every message is handed over while the sending flag is
  false (the input is enabled) and every conversation clicked is listed: job \<open>j0\<close> of
  conversation 7 has two ticks in flight, and each of them fails and clears the flag, the
  second one after message \<open>a\<close> has been sent.
\<close>

definition overlapping_sends :: "event list" where
  "overlapping_sends =
     [FetchHistory, Reply 0 (Conversations [conv5, conv7]) 1,
      SelectConversation 7, Reply 0 (Messages [wire7]) 2,
      SendMessage ''z'' 50, Reply 0 (Submitted ''j0'' 7) 51, Fire 1, Fire 1,
      Reply 0 Failed 52, CreateNewConversation,
      SendMessage ''a'' 100, Reply 0 Failed 101,
      SelectConversation 5, Reply 1 (Messages []) 102,
      SendMessage ''b'' 200,
      Reply 0 (Submitted ''j1'' 42) 201, Reply 0 (Submitted ''j2'' 5) 202]"

section \<open>The poll timer\<close>

lemmas seg_defs =
  hook_of_def set_pollingIntervalRef_def set_newConversationIdRef_def
  dispatch_def await_request_def clearInterval_def clearPolling_def reset_progress_def
  fetchHistory_begin_def fetchHistory_resume_def selectConversation_begin_def
  selectConversation_resume_def createNewConversation_def deleteConversation_begin_def
  deleteConversation_resume_def startPolling_def tick_begin_def tick_resume_def
  sendMessage_begin_def sendMessage_resume_def handleSendMessage_def

lemmas eval_defs = seg_defs resume_def init_app_def init_hook_def initialState_def
  inactiveProgress_def example_platform_def ascii_space_def createUserMessage_def
  createErrorMessage_def convertApiMessage_def or_undefined_def terminal_status_def Let_def
  conv5_def conv7_def conv42_def wire7_def wire_empty_type_def
  wire42_question_def wire42_answer_def

text \<open>Only \<open>clearPolling\<close> and \<open>startPolling\<close> touch the timers and the timer
  references; \<open>startPolling\<close> runs only in the ChatInterface, and \<open>clearPolling\<close> in the
  Sidebar finds an empty reference. So every step keeps \<open>timers_ok\<close>.\<close>

lemma timers_ok_dispatch [simp]: "timers_ok (dispatch act a) = timers_ok a"
  by (simp add: timers_ok_def dispatch_def)

lemma timers_ok_anchor [simp]: "timers_ok (set_newConversationIdRef i v a) = timers_ok a"
  by (cases i) (simp_all add: timers_ok_def set_newConversationIdRef_def)

lemma timers_ok_await:
  "timers_ok a \<Longrightarrow> owned_by_chat (i, t) \<Longrightarrow> timers_ok (await_request i t a)"
  by (simp add: timers_ok_def await_request_def)

lemma timers_ok_remove:
  "timers_ok a \<Longrightarrow>
   timers_ok (a\<lparr>inflight := take n (inflight a) @ drop (Suc n) (inflight a)\<rparr>)"
  by (auto simp: timers_ok_def list_all_iff dest: in_set_takeD in_set_dropD)

lemma clearPolling_chat:
  "timers_ok a \<Longrightarrow>
   intervals (clearPolling ChatInterface a) = []
   \<and> pollingIntervalRef (chatInterface (clearPolling ChatInterface a)) = None"
  by (cases "intervals a")
    (auto simp: timers_ok_def clearPolling_def clearInterval_def hook_of_def
      set_pollingIntervalRef_def split: option.splits)

lemma clearPolling_sidebar: "timers_ok a \<Longrightarrow> clearPolling Sidebar a = a"
  by (simp add: timers_ok_def clearPolling_def hook_of_def)

lemma timers_ok_clearPolling: "timers_ok a \<Longrightarrow> timers_ok (clearPolling i a)"
proof (cases i)
  case Sidebar
  assume "timers_ok a"
  then show ?thesis by (simp add: Sidebar clearPolling_sidebar)
next
  case ChatInterface
  assume ok: "timers_ok a"
  have "sidebar (clearPolling ChatInterface a) = sidebar a"
    "inflight (clearPolling ChatInterface a) = inflight a"
    by (simp_all add: clearPolling_def clearInterval_def hook_of_def
        set_pollingIntervalRef_def split: option.splits)
  with ok clearPolling_chat [OF ok] show ?thesis
    by (simp add: ChatInterface timers_ok_def)
qed

lemma timers_ok_startPolling:
  "timers_ok a \<Longrightarrow> timers_ok (startPolling ChatInterface j sel a)"
proof -
  assume ok: "timers_ok a"
  have "sidebar (clearPolling ChatInterface a) = sidebar a"
    "inflight (clearPolling ChatInterface a) = inflight a"
    by (simp_all add: clearPolling_def clearInterval_def hook_of_def
        set_pollingIntervalRef_def split: option.splits)
  with ok clearPolling_chat [OF ok] show ?thesis
    by (simp add: timers_ok_def startPolling_def Let_def set_pollingIntervalRef_def)
qed

lemma timers_ok_reset [simp]: "timers_ok (reset_progress a) = timers_ok a"
  by (simp add: reset_progress_def)

lemma timers_ok_fetchHistory_begin:
  "timers_ok a \<Longrightarrow> timers_ok (fetchHistory_begin i k a)"
  by (simp add: fetchHistory_begin_def timers_ok_await)

lemma timers_ok_continue: "timers_ok a \<Longrightarrow> timers_ok (continue i k a)"
  by (cases k) (simp_all add: timers_ok_fetchHistory_begin)

lemma timers_ok_fetchHistory_resume:
  "timers_ok a \<Longrightarrow> timers_ok (fetchHistory_resume i r k a)"
  by (simp add: fetchHistory_resume_def timers_ok_continue split: option.splits)

lemma timers_ok_selectConversation_begin:
  "timers_ok a \<Longrightarrow> timers_ok (selectConversation_begin i sel k a)"
  by (simp add: selectConversation_begin_def Let_def timers_ok_continue timers_ok_await
      split: option.splits)

lemma timers_ok_selectConversation_resume:
  "timers_ok a \<Longrightarrow> timers_ok (selectConversation_resume pf i r k a)"
  by (simp add: selectConversation_resume_def timers_ok_continue split: option.splits)

lemma timers_ok_createNewConversation:
  "timers_ok a \<Longrightarrow> timers_ok (createNewConversation i a)"
  by (simp add: createNewConversation_def timers_ok_clearPolling)

lemma timers_ok_deleteConversation_begin:
  "timers_ok a \<Longrightarrow> timers_ok (deleteConversation_begin i n a)"
  by (simp add: deleteConversation_begin_def Let_def timers_ok_await)

lemma timers_ok_deleteConversation_resume [simp]:
  "timers_ok (deleteConversation_resume ok n cur sel a) = timers_ok a"
  by (simp add: deleteConversation_resume_def)

lemma timers_ok_handleSendMessage:
  "timers_ok a \<Longrightarrow> timers_ok (handleSendMessage pf now c a)"
  by (simp add: handleSendMessage_def sendMessage_begin_def Let_def timers_ok_await)

lemma timers_ok_sendMessage_resume:
  "timers_ok a \<Longrightarrow> timers_ok (sendMessage_resume pf ChatInterface now r sel a)"
  by (auto simp: sendMessage_resume_def Let_def timers_ok_startPolling split: option.splits)

lemma timers_ok_tick_resume:
  "timers_ok a \<Longrightarrow> timers_ok (tick_resume i r sel a)"
  by (auto simp: tick_resume_def Let_def timers_ok_clearPolling
      timers_ok_selectConversation_begin split: option.splits)

lemma timers_ok_resume:
  assumes "timers_ok a" and "owned_by_chat (i, tk)" and "resume pf now i tk r a = Some a'"
  shows "timers_ok a'"
proof (cases tk)
  case (T_sendMessage c sel)
  with assms(2) have "i = ChatInterface" by simp
  with assms(1,3) T_sendMessage show ?thesis
    by (auto simp: resume_def timers_ok_sendMessage_resume split: response.splits)
next
  case (T_tick j sel)
  with assms(1,3) show ?thesis
    by (auto simp: resume_def timers_ok_tick_resume split: response.splits)
qed (use assms(1,3) in \<open>auto simp: resume_def timers_ok_fetchHistory_resume
      timers_ok_selectConversation_resume timers_ok_tick_resume split: response.splits\<close>)

lemma timers_ok_fire:
  assumes "timers_ok a" and "map_of (intervals a) t = Some (i, jobId, sel)"
  shows "timers_ok (tick_begin i jobId sel a)"
proof -
  from assms(2) have "(t, i, jobId, sel) \<in> set (intervals a)" by (rule map_of_SomeD)
  with assms(1) have "i = ChatInterface" by (auto simp: timers_ok_def list_all_iff)
  with assms(1) show ?thesis by (simp add: tick_begin_def timers_ok_await)
qed

lemma timers_ok_step:
  assumes "timers_ok a" and "step pf e a = Some a'"
  shows "timers_ok a'"
proof (cases e)
  case (Reply n r now)
  let ?b = "a\<lparr>inflight := take n (inflight a) @ drop (Suc n) (inflight a)\<rparr>"
  from assms(2) Reply have n: "n < length (inflight a)"
    and r: "resume pf now (fst (inflight a ! n)) (snd (inflight a ! n)) r ?b = Some a'"
    by (simp_all split: if_splits)
  from assms(1) n have "owned_by_chat (inflight a ! n)"
    by (simp add: timers_ok_def list_all_length)
  then have "owned_by_chat (fst (inflight a ! n), snd (inflight a ! n))" by simp
  from timers_ok_resume [OF timers_ok_remove [OF assms(1)] this r] show ?thesis .
next
  case (Fire t)
  with assms show ?thesis
    by (auto simp: timers_ok_fire split: option.splits)
qed (use assms in \<open>auto simp: timers_ok_fetchHistory_begin timers_ok_selectConversation_begin
      timers_ok_createNewConversation timers_ok_deleteConversation_begin
      timers_ok_handleSendMessage\<close>)

lemma timers_ok_run:
  "timers_ok a \<Longrightarrow> run pf evs a = Some a' \<Longrightarrow> timers_ok a'"
proof (induction evs arbitrary: a)
  case Nil
  then show ?case by simp
next
  case (Cons e evs)
  then show ?case by (auto split: option.splits dest: timers_ok_step)
qed

lemma timers_ok_init: "timers_ok init_app"
  by (simp add: timers_ok_def init_app_def init_hook_def)

lemma run_append:
  "run pf (xs @ ys) a = (case run pf xs a of None \<Rightarrow> None | Some b \<Rightarrow> run pf ys b)"
  by (induction xs arbitrary: a) (auto split: option.splits)

lemma run_prefix:
  assumes "run pf evs a = Some a'"
  shows "\<exists>b. run pf (take n evs) a = Some b"
proof -
  have "run pf (take n evs @ drop n evs) a = Some a'" using assms by simp
  then show ?thesis unfolding run_append by (auto split: option.splits)
qed

text \<open>
  In every state the application reaches from its initial state, by any sequence of calls,
  timer firings and answers, at most one poll timer is alive, and so it is after every
  prefix of the sequence; it is the one the ChatInterface's reference names.
  \<open>clearPolling\<close> in the ChatInterface leaves no timer alive, so \<open>startPolling\<close>, which
  begins with it, has cancelled the previous timer when it creates the new one, the only
  one alive afterwards.
\<close>

lemma one_poll_timer:
  assumes "run pf evs init_app = Some a"
  shows "length (intervals a) \<le> 1
    \<and> (\<forall>n. \<exists>b. run pf (take n evs) init_app = Some b \<and> length (intervals b) \<le> 1)
    \<and> map fst (intervals a)
        = (case pollingIntervalRef (chatInterface a) of None \<Rightarrow> [] | Some t \<Rightarrow> [t])
    \<and> pollingIntervalRef (sidebar a) = None
    \<and> intervals (clearPolling ChatInterface a) = []
    \<and> intervals (startPolling ChatInterface jobId sel a) = [(nextHandle a, ChatInterface, jobId, sel)]"
proof -
  have bound: "length (intervals b) \<le> 1" if "timers_ok b" for b
  proof -
    from that have "length (map fst (intervals b)) \<le> 1"
      by (simp add: timers_ok_def split: option.splits)
    then show ?thesis by simp
  qed
  have ok: "timers_ok a"
    using timers_ok_run [OF timers_ok_init assms] .
  have pre: "\<exists>b. run pf (take n evs) init_app = Some b \<and> length (intervals b) \<le> 1" for n
  proof -
    obtain b where b: "run pf (take n evs) init_app = Some b"
      using run_prefix [OF assms] by blast
    then have "timers_ok b" using timers_ok_run [OF timers_ok_init] by blast
    with b bound show ?thesis by blast
  qed
  have clr: "intervals (clearPolling ChatInterface a) = []"
    using clearPolling_chat [OF ok] by simp
  have nh: "nextHandle (clearPolling ChatInterface a) = nextHandle a"
    by (simp add: clearPolling_def clearInterval_def set_pollingIntervalRef_def
        split: option.splits)
  have sp: "intervals (startPolling ChatInterface jobId sel a)
      = [(nextHandle a, ChatInterface, jobId, sel)]"
    using clr nh by (simp add: startPolling_def Let_def set_pollingIntervalRef_def)
  show ?thesis using bound [OF ok] pre clr sp ok by (simp add: timers_ok_def)
qed

text \<open>
  \<open>createNewConversation\<close> calls \<open>clearPolling\<close> first, but it runs in the Sidebar,
  whose reference is always empty: in every reachable state it leaves the timers, the
  ChatInterface's references and the requests in flight as they are.
\<close>

lemma createNewConversation_keeps_timers:
  assumes "run pf evs init_app = Some a"
  shows "\<exists>b. step pf CreateNewConversation a = Some b
     \<and> intervals b = intervals a \<and> chatInterface b = chatInterface a
     \<and> inflight b = inflight a"
  using clearPolling_sidebar [OF timers_ok_run [OF timers_ok_init assms]]
  by (simp add: createNewConversation_def dispatch_def)

text \<open>
  C1. A new conversation started during a poll does not cancel the poll's timer. A message
  is sent from the draft state and answered with job \<open>j1\<close>: timer 1 is alive and the
  ChatInterface's reference names it. The user then clicks the new-conversation button:
  the selection and the messages are cleared, but \<open>clearPolling\<close> read the Sidebar's
  reference, which is empty, so timer 1 is still alive, and it fires again and issues the
  next status request.
\<close>

theorem createNewConversation_leaves_timer_alive:
  "run example_platform
     [SendMessage ''revenue 2023'' 100, Reply 0 (Submitted ''j1'' 42) 101] init_app
   = Some \<lparr> state =
       \<lparr> conversations = [], selectedConversationId = None,
         messages =
           [\<lparr> msg_id = ''100'', content = ''revenue 2023'', isUser = True,
              timestamp = ''12:00:00'', contentType = None, filePath = None,
              msg_error = None \<rparr>],
         isLoadingHistory = False, isLoadingMessages = False, isSendingMessage = True,
         currentJobId = Some ''j1'', currentJobProgress = inactiveProgress, error = None \<rparr>,
       sidebar = \<lparr> pollingIntervalRef = None, newConversationIdRef = None \<rparr>,
       chatInterface = \<lparr> pollingIntervalRef = Some 1, newConversationIdRef = Some 42 \<rparr>,
       intervals = [(1, ChatInterface, ''j1'', None)], nextHandle = 2, inflight = [] \<rparr>
   \<and> run example_platform
     [SendMessage ''revenue 2023'' 100, Reply 0 (Submitted ''j1'' 42) 101,
      CreateNewConversation] init_app
   = Some \<lparr> state =
       \<lparr> conversations = [], selectedConversationId = None, messages = [],
         isLoadingHistory = False, isLoadingMessages = False, isSendingMessage = True,
         currentJobId = Some ''j1'', currentJobProgress = inactiveProgress, error = None \<rparr>,
       sidebar = \<lparr> pollingIntervalRef = None, newConversationIdRef = None \<rparr>,
       chatInterface = \<lparr> pollingIntervalRef = Some 1, newConversationIdRef = Some 42 \<rparr>,
       intervals = [(1, ChatInterface, ''j1'', None)], nextHandle = 2, inflight = [] \<rparr>
   \<and> run example_platform
     [SendMessage ''revenue 2023'' 100, Reply 0 (Submitted ''j1'' 42) 101,
      CreateNewConversation, Fire 1] init_app
   = Some \<lparr> state =
       \<lparr> conversations = [], selectedConversationId = None, messages = [],
         isLoadingHistory = False, isLoadingMessages = False, isSendingMessage = True,
         currentJobId = Some ''j1'', currentJobProgress = inactiveProgress, error = None \<rparr>,
       sidebar = \<lparr> pollingIntervalRef = None, newConversationIdRef = None \<rparr>,
       chatInterface = \<lparr> pollingIntervalRef = Some 1, newConversationIdRef = Some 42 \<rparr>,
       intervals = [(1, ChatInterface, ''j1'', None)], nextHandle = 2,
       inflight = [(ChatInterface, T_tick ''j1'' None)] \<rparr>"
  by (simp add: eval_defs)

section \<open>A poll tick that fails\<close>

text \<open>
  C7. In every reachable state, when the status request of a tick in flight is rejected,
  the \<open>catch\<close> branch of the interval callback cancels the timer (none is alive
  afterwards and the reference is empty, so no timer can fire again), clears the sending
  flag, sets the global error to a non-empty string and resets the progress to inactive.
\<close>

theorem poll_transport_failure:
  assumes "run pf evs init_app = Some a"
      and "n < length (inflight a)" and "inflight a ! n = (ChatInterface, T_tick jobId sel)"
  shows "\<exists>a'. step pf (Reply n Failed now) a = Some a'
     \<and> intervals a' = [] \<and> pollingIntervalRef (chatInterface a') = None
     \<and> (\<forall>t. step pf (Fire t) a' = None)
     \<and> isSendingMessage (state a') = False
     \<and> error (state a') = Some err_polling \<and> err_polling \<noteq> []
     \<and> currentJobProgress (state a') = inactiveProgress
     \<and> isActive (currentJobProgress (state a')) = False"
proof -
  let ?b = "a\<lparr>inflight := take n (inflight a) @ drop (Suc n) (inflight a)\<rparr>"
  let ?r = "tick_resume ChatInterface None sel ?b"
  have ok: "timers_ok ?b"
    using timers_ok_remove [OF timers_ok_run [OF timers_ok_init assms(1)]] .
  have st: "step pf (Reply n Failed now) a = Some ?r"
    using assms(2,3) by (simp add: resume_def)
  have c: "intervals (clearPolling ChatInterface ?b) = []
      \<and> pollingIntervalRef (chatInterface (clearPolling ChatInterface ?b)) = None"
    using clearPolling_chat [OF ok] .
  have iv: "intervals ?r = []" and pr: "pollingIntervalRef (chatInterface ?r) = None"
    using c by (simp_all add: tick_resume_def reset_progress_def dispatch_def)
  have stt: "isSendingMessage (state ?r) = False
     \<and> error (state ?r) = Some err_polling
     \<and> currentJobProgress (state ?r) = inactiveProgress"
    by (simp add: tick_resume_def reset_progress_def dispatch_def clearPolling_def
        clearInterval_def set_pollingIntervalRef_def hook_of_def split: option.splits)
  have ne: "err_polling \<noteq> []" by (simp add: err_polling_def)
  have fire: "\<forall>t. step pf (Fire t) ?r = None"
    using iv by simp
  show ?thesis using st iv pr stt ne fire by (simp add: inactiveProgress_def)
qed

theorem poll_transport_failure_witness:
  "\<exists>a a'. run example_platform
          [SendMessage ''q'' 100, Reply 0 (Submitted ''j1'' 42) 101, Fire 1] init_app = Some a
     \<and> 0 < length (inflight a) \<and> inflight a ! 0 = (ChatInterface, T_tick ''j1'' None)
     \<and> intervals a = [(1, ChatInterface, ''j1'', None)]
     \<and> step example_platform (Reply 0 Failed 102) a = Some a'
     \<and> intervals a' = []
     \<and> step example_platform (Fire 1) a' = None
     \<and> isSendingMessage (state a') = False
     \<and> error (state a') = Some err_polling
     \<and> isActive (currentJobProgress (state a')) = False"
proof -
  have "\<exists>a. run example_platform
          [SendMessage ''q'' 100, Reply 0 (Submitted ''j1'' 42) 101, Fire 1] init_app = Some a
     \<and> 0 < length (inflight a) \<and> inflight a ! 0 = (ChatInterface, T_tick ''j1'' None)
     \<and> intervals a = [(1, ChatInterface, ''j1'', None)]"
    by (simp add: eval_defs)
  then obtain a where r: "run example_platform
          [SendMessage ''q'' 100, Reply 0 (Submitted ''j1'' 42) 101, Fire 1] init_app = Some a"
    and l: "0 < length (inflight a)"
    and t: "inflight a ! 0 = (ChatInterface, T_tick ''j1'' None)"
    and i: "intervals a = [(1, ChatInterface, ''j1'', None)]"
    by blast
  from poll_transport_failure [OF r l t, of 102] r l t i
  show ?thesis by blast
qed

section \<open>A poll tick that reports a terminal status\<close>

lemma state_clearPolling [simp]: "state (clearPolling i a) = state a"
  by (cases i) (simp_all add: clearPolling_def clearInterval_def set_pollingIntervalRef_def
      split: option.splits)

lemma inflight_clearPolling [simp]: "inflight (clearPolling i a) = inflight a"
  by (cases i) (simp_all add: clearPolling_def clearInterval_def set_pollingIntervalRef_def
      split: option.splits)

lemma hook_of_simps [simp]:
  "hook_of Sidebar a = sidebar a" "hook_of ChatInterface a = chatInterface a"
  by (simp_all add: hook_of_def)

lemma anchor_clearPolling [simp]:
  "newConversationIdRef (chatInterface (clearPolling i a)) = newConversationIdRef (chatInterface a)"
  "newConversationIdRef (sidebar (clearPolling i a)) = newConversationIdRef (sidebar a)"
  by (cases i; simp add: clearPolling_def clearInterval_def set_pollingIntervalRef_def
      split: option.splits)+

lemma refs_dispatch [simp]:
  "chatInterface (dispatch act a) = chatInterface a" "sidebar (dispatch act a) = sidebar a"
  by (simp_all add: dispatch_def)

lemma refs_await [simp]:
  "chatInterface (await_request i t a) = chatInterface a"
  "sidebar (await_request i t a) = sidebar a"
  by (simp_all add: await_request_def)





section \<open>Answers that arrive after the timer is cancelled\<close>

lemma tick_resume_store_ignores_timers:
  "state (tick_resume ChatInterface r sel
      (a\<lparr>intervals := ivs, chatInterface := (chatInterface a)\<lparr>pollingIntervalRef := q\<rparr>\<rparr>))
     = state (tick_resume ChatInterface r sel a)"
  by (cases r)
    (auto simp: tick_resume_def Let_def reset_progress_def dispatch_def
      selectConversation_begin_def await_request_def split: option.splits)

text \<open>
  C3. When the poll timer has been cancelled and no timer is alive, no further tick is
  issued, but the interval callback has no liveness check: the answer to a tick that was
  issued before the cancellation is handled like any other. With a status that is not
  terminal it sets the progress to active with the reported values and changes nothing
  else; with a terminal status it clears the sending flag and, if the anchor or else the
  captured selection names a conversation, selects it and requests its messages. The
  store that the callback leaves does not depend on the timers or on the timer reference
  at all.
\<close>

theorem stale_tick_response_applied:
  assumes "intervals a = []"
      and "n < length (inflight a)" and "inflight a ! n = (ChatInterface, T_tick jobId sel)"
  shows "(\<forall>t. step pf (Fire t) a = None)
     \<and> (\<exists>k. step pf (Reply n (JobStatus st p g) now) a = Some k
          \<and> (if terminal_status st
              then isSendingMessage (state k) = False
                 \<and> (case (case newConversationIdRef (chatInterface a) of
                            Some anchor \<Rightarrow> Some anchor | None \<Rightarrow> sel) of
                       None \<Rightarrow>
                         state k = (state a)
                           \<lparr>currentJobProgress := inactiveProgress, isSendingMessage := False\<rparr>
                         \<and> inflight k = take n (inflight a) @ drop (Suc n) (inflight a)
                     | Some i \<Rightarrow>
                         selectedConversationId (state k) = Some i
                         \<and> inflight k = take n (inflight a) @ drop (Suc n) (inflight a)
                              @ [(ChatInterface, T_selectConversation i (K_tick_selected i))])
              else state k = (state a)
                     \<lparr>currentJobProgress := \<lparr>isActive = True, progress = p, stage = g\<rparr>\<rparr>))
     \<and> (\<forall>r ivs q. state (tick_resume ChatInterface r sel
            (a\<lparr>intervals := ivs, chatInterface := (chatInterface a)\<lparr>pollingIntervalRef := q\<rparr>\<rparr>))
          = state (tick_resume ChatInterface r sel a))"
proof -
  let ?rest = "take n (inflight a) @ drop (Suc n) (inflight a)"
  let ?b = "a\<lparr>inflight := ?rest\<rparr>"
  let ?k = "tick_resume ChatInterface (Some (st, p, g)) sel ?b"
  let ?target = "case newConversationIdRef (chatInterface a) of
      Some anchor \<Rightarrow> Some anchor | None \<Rightarrow> sel"
  let ?a2 = "dispatch (SET_SENDING_MESSAGE False) (clearPolling ChatInterface
      (dispatch (SET_CURRENT_JOB_PROGRESS \<lparr>isActive = True, progress = p, stage = g\<rparr>) ?b))"
  have fire: "\<forall>t. step pf (Fire t) a = None" using assms(1) by simp
  have st: "step pf (Reply n (JobStatus st p g) now) a = Some ?k"
    using assms(2,3) by (simp add: resume_def)
  have nt: "state ?k
      = (state a)\<lparr>currentJobProgress := \<lparr>isActive = True, progress = p, stage = g\<rparr>\<rparr>"
    if "\<not> terminal_status st"
    using that by (simp add: tick_resume_def dispatch_def)
  have a2: "state ?a2 = (state a)\<lparr>currentJobProgress :=
        \<lparr>isActive = True, progress = p, stage = g\<rparr>, isSendingMessage := False\<rparr>"
    "inflight ?a2 = ?rest"
    "newConversationIdRef (chatInterface ?a2) = newConversationIdRef (chatInterface a)"
    by (simp_all add: dispatch_def)
  have t: "isSendingMessage (state ?k) = False
      \<and> (case ?target of
            None \<Rightarrow> state ?k = (state a)
                \<lparr>currentJobProgress := inactiveProgress, isSendingMessage := False\<rparr>
              \<and> inflight ?k = ?rest
          | Some i \<Rightarrow> selectedConversationId (state ?k) = Some i
              \<and> inflight ?k = take n (inflight a) @ drop (Suc n) (inflight a)
                   @ [(ChatInterface, T_selectConversation i (K_tick_selected i))])"
    if "terminal_status st"
  proof (cases ?target)
    case None
    then have "?k = reset_progress ?a2"
      using that a2(3) by (simp add: tick_resume_def Let_def)
    then show ?thesis using None a2 by (simp add: reset_progress_def dispatch_def)
  next
    case (Some i)
    then have "?k = selectConversation_begin ChatInterface (Some i) (K_tick_selected i) ?a2"
      using that a2(3) by (simp add: tick_resume_def Let_def)
    then show ?thesis using Some a2
      by (simp add: selectConversation_begin_def dispatch_def await_request_def)
  qed
  have ex: "\<exists>k. step pf (Reply n (JobStatus st p g) now) a = Some k
          \<and> (if terminal_status st
              then isSendingMessage (state k) = False
                 \<and> (case ?target of
                       None \<Rightarrow> state k = (state a)
                           \<lparr>currentJobProgress := inactiveProgress, isSendingMessage := False\<rparr>
                         \<and> inflight k = ?rest
                     | Some i \<Rightarrow> selectedConversationId (state k) = Some i
                         \<and> inflight k = take n (inflight a) @ drop (Suc n) (inflight a)
                              @ [(ChatInterface, T_selectConversation i (K_tick_selected i))])
              else state k = (state a)
                     \<lparr>currentJobProgress := \<lparr>isActive = True, progress = p, stage = g\<rparr>\<rparr>)"
    using st nt t by (cases "terminal_status st") auto
  from fire ex tick_resume_store_ignores_timers show ?thesis by blast
qed

theorem stale_tick_response_applied_witness:
  "\<exists>a k k'. run example_platform
        [SendMessage ''revenue 2023'' 100, Reply 0 (Submitted ''j1'' 42) 101,
         Fire 1, Fire 1, Reply 0 Failed 102] init_app = Some a
     \<and> intervals a = [] \<and> 0 < length (inflight a)
     \<and> inflight a ! 0 = (ChatInterface, T_tick ''j1'' None)
     \<and> step example_platform (Fire 1) a = None
     \<and> \<not> terminal_status ''running''
     \<and> step example_platform (Reply 0 (JobStatus ''running'' 30 ''plan'') 103) a = Some k
     \<and> currentJobProgress (state k) = \<lparr>isActive = True, progress = 30, stage = ''plan''\<rparr>
     \<and> currentJobProgress (state a) = inactiveProgress
     \<and> terminal_status ''completed''
     \<and> step example_platform (Reply 0 (JobStatus ''completed'' 100 ''done'') 103) a = Some k'
     \<and> selectedConversationId (state k') = Some 42
     \<and> selectedConversationId (state a) = None
     \<and> isSendingMessage (state k') = False"
proof -
  have "\<exists>a. run example_platform
        [SendMessage ''revenue 2023'' 100, Reply 0 (Submitted ''j1'' 42) 101,
         Fire 1, Fire 1, Reply 0 Failed 102] init_app = Some a
     \<and> intervals a = [] \<and> 0 < length (inflight a)
     \<and> inflight a ! 0 = (ChatInterface, T_tick ''j1'' None)
     \<and> newConversationIdRef (chatInterface a) = Some 42
     \<and> currentJobProgress (state a) = inactiveProgress
     \<and> selectedConversationId (state a) = None"
    by (simp add: eval_defs)
  then obtain a where r: "run example_platform
        [SendMessage ''revenue 2023'' 100, Reply 0 (Submitted ''j1'' 42) 101,
         Fire 1, Fire 1, Reply 0 Failed 102] init_app = Some a"
    and i: "intervals a = []" and l: "0 < length (inflight a)"
    and t: "inflight a ! 0 = (ChatInterface, T_tick ''j1'' None)"
    and an: "newConversationIdRef (chatInterface a) = Some 42"
    and p: "currentJobProgress (state a) = inactiveProgress"
    and s: "selectedConversationId (state a) = None"
    by blast
  have n: "\<not> terminal_status ''running''" and c: "terminal_status ''completed''"
    by (simp_all add: terminal_status_def)
  from stale_tick_response_applied [OF i l t, of example_platform "''running''" 30 "''plan''" 103]
    stale_tick_response_applied [OF i l t, of example_platform "''completed''" 100 "''done''" 103]
    r i l t an p s n c
  show ?thesis by auto
qed

text \<open>
  A message is sent from the draft state and two ticks are issued before the first is
  answered. The first fails: the timer is cancelled, the sending flag cleared and the
  progress inactive. The answer to the second, \<open>completed\<close>, then sets the progress,
  selects conversation 42, clears the error and requests the messages.
\<close>

theorem stale_tick_counterexample:
  "run example_platform
     [SendMessage ''revenue 2023'' 100, Reply 0 (Submitted ''j1'' 42) 101,
      Fire 1, Fire 1, Reply 0 Failed 102] init_app
   = Some \<lparr> state =
       \<lparr> conversations = [], selectedConversationId = None,
         messages =
           [\<lparr> msg_id = ''100'', content = ''revenue 2023'', isUser = True,
              timestamp = ''12:00:00'', contentType = None, filePath = None,
              msg_error = None \<rparr>],
         isLoadingHistory = False, isLoadingMessages = False, isSendingMessage = False,
         currentJobId = Some ''j1'', currentJobProgress = inactiveProgress,
         error = Some err_polling \<rparr>,
       sidebar = \<lparr> pollingIntervalRef = None, newConversationIdRef = None \<rparr>,
       chatInterface = \<lparr> pollingIntervalRef = None, newConversationIdRef = Some 42 \<rparr>,
       intervals = [], nextHandle = 2,
       inflight = [(ChatInterface, T_tick ''j1'' None)] \<rparr>
   \<and> run example_platform
     [SendMessage ''revenue 2023'' 100, Reply 0 (Submitted ''j1'' 42) 101,
      Fire 1, Fire 1, Reply 0 Failed 102,
      Reply 0 (JobStatus ''completed'' 100 ''done'') 103] init_app
   = Some \<lparr> state =
       \<lparr> conversations = [], selectedConversationId = Some 42,
         messages =
           [\<lparr> msg_id = ''100'', content = ''revenue 2023'', isUser = True,
              timestamp = ''12:00:00'', contentType = None, filePath = None,
              msg_error = None \<rparr>],
         isLoadingHistory = False, isLoadingMessages = True, isSendingMessage = False,
         currentJobId = Some ''j1'',
         currentJobProgress = \<lparr> isActive = True, progress = 100, stage = ''done'' \<rparr>,
         error = None \<rparr>,
       sidebar = \<lparr> pollingIntervalRef = None, newConversationIdRef = None \<rparr>,
       chatInterface = \<lparr> pollingIntervalRef = None, newConversationIdRef = Some 42 \<rparr>,
       intervals = [], nextHandle = 2,
       inflight = [(ChatInterface, T_selectConversation 42 (K_tick_selected 42))] \<rparr>"
  by (simp add: eval_defs)

section \<open>The anchor of a new conversation\<close>

lemma anchor_set_chat [simp]:
  "newConversationIdRef (chatInterface (set_newConversationIdRef i v a))
     = (if i = ChatInterface then v else newConversationIdRef (chatInterface a))"
  by (cases i) (simp_all add: set_newConversationIdRef_def)

lemma anchor_continue:
  "newConversationIdRef (chatInterface a) = x \<Longrightarrow>
   newConversationIdRef (chatInterface (continue i k a)) = None
   \<or> newConversationIdRef (chatInterface (continue i k a)) = x"
  by (cases k) (auto simp: fetchHistory_begin_def reset_progress_def)

lemma anchor_fetchHistory_resume:
  "newConversationIdRef (chatInterface (fetchHistory_resume i r k a)) = None \<or>
   newConversationIdRef (chatInterface (fetchHistory_resume i r k a))
     = newConversationIdRef (chatInterface a)"
  unfolding fetchHistory_resume_def
  by (rule anchor_continue) (simp split: option.splits)

lemma anchor_selectConversation_begin:
  "newConversationIdRef (chatInterface (selectConversation_begin i sel k a)) = None \<or>
   newConversationIdRef (chatInterface (selectConversation_begin i sel k a))
     = newConversationIdRef (chatInterface a)"
proof (cases sel)
  case None
  have "newConversationIdRef (chatInterface (continue i k (dispatch (SET_MESSAGES [])
          (dispatch (SELECT_CONVERSATION None) a)))) = None \<or>
        newConversationIdRef (chatInterface (continue i k (dispatch (SET_MESSAGES [])
          (dispatch (SELECT_CONVERSATION None) a)))) = newConversationIdRef (chatInterface a)"
    by (rule anchor_continue) simp
  with None show ?thesis by (simp add: selectConversation_begin_def)
next
  case (Some n)
  then show ?thesis by (simp add: selectConversation_begin_def)
qed

lemma anchor_selectConversation_resume:
  "newConversationIdRef (chatInterface (selectConversation_resume pf i r k a)) = None \<or>
   newConversationIdRef (chatInterface (selectConversation_resume pf i r k a))
     = newConversationIdRef (chatInterface a)"
  unfolding selectConversation_resume_def
  by (rule anchor_continue) (simp split: option.splits)

lemma anchor_tick_resume:
  "newConversationIdRef (chatInterface (tick_resume i r sel a)) = None \<or>
   newConversationIdRef (chatInterface (tick_resume i r sel a))
     = newConversationIdRef (chatInterface a)"
proof (cases r)
  case None
  then show ?thesis by (simp add: tick_resume_def reset_progress_def)
next
  case (Some x)
  obtain st p g where x: "x = (st, p, g)" by (cases x)
  let ?a2 = "dispatch (SET_SENDING_MESSAGE False) (clearPolling i
      (dispatch (SET_CURRENT_JOB_PROGRESS \<lparr>isActive = True, progress = p, stage = g\<rparr>) a))"
  have "newConversationIdRef (chatInterface
          (selectConversation_begin i (Some n) (K_tick_selected n) ?a2)) = None
      \<or> newConversationIdRef (chatInterface
          (selectConversation_begin i (Some n) (K_tick_selected n) ?a2))
          = newConversationIdRef (chatInterface a)" for n
    using anchor_selectConversation_begin [of i "Some n" "K_tick_selected n" ?a2] by simp
  then show ?thesis
    by (auto simp: Some x tick_resume_def Let_def reset_progress_def split: option.splits)
qed

lemma anchor_resume:
  assumes "resume pf now i tk r a = Some a'" and "\<forall>j c. r \<noteq> Submitted j c"
  shows "newConversationIdRef (chatInterface a') = None
     \<or> newConversationIdRef (chatInterface a') = newConversationIdRef (chatInterface a)"
proof (cases tk)
  case (T_fetchHistory k)
  with assms(1) obtain x where "a' = fetchHistory_resume i x k a"
    by (auto simp: resume_def split: response.splits)
  then show ?thesis using anchor_fetchHistory_resume [of i x k a] by simp
next
  case (T_selectConversation n k)
  with assms(1) obtain x where "a' = selectConversation_resume pf i x k a"
    by (auto simp: resume_def split: response.splits)
  then show ?thesis using anchor_selectConversation_resume [of pf i x k a] by simp
next
  case (T_deleteConversation n cur sel)
  with assms show ?thesis
    by (auto simp: resume_def deleteConversation_resume_def split: response.splits if_splits)
next
  case (T_sendMessage c sel)
  with assms show ?thesis
    by (auto simp: resume_def sendMessage_resume_def split: response.splits)
next
  case (T_tick j sel)
  with assms(1) obtain x where "a' = tick_resume i x sel a"
    by (auto simp: resume_def split: response.splits)
  then show ?thesis using anchor_tick_resume [of i x sel a] by simp
qed

lemma anchor_step:
  assumes "step pf e a = Some a'" and "\<not> is_submitted e"
  shows "newConversationIdRef (chatInterface a') = None
     \<or> newConversationIdRef (chatInterface a') = newConversationIdRef (chatInterface a)"
proof (cases e)
  case (Reply n r now)
  from assms(2) Reply have ns: "\<forall>j c. r \<noteq> Submitted j c" by auto
  from assms(1) Reply have "resume pf now (fst (inflight a ! n)) (snd (inflight a ! n)) r
      (a\<lparr>inflight := take n (inflight a) @ drop (Suc n) (inflight a)\<rparr>) = Some a'"
    by (simp split: if_splits)
  from anchor_resume [OF this ns] show ?thesis by simp
next
  case (SelectConversation n)
  with assms(1) have "a' = selectConversation_begin Sidebar (Some n) Ret a" by simp
  then show ?thesis using anchor_selectConversation_begin [of Sidebar "Some n" Ret a] by simp
qed (use assms(1) in \<open>auto simp: fetchHistory_begin_def createNewConversation_def
      deleteConversation_begin_def handleSendMessage_def sendMessage_begin_def tick_begin_def
      Let_def split: option.splits if_splits\<close>)

lemma anchor_run:
  assumes "run pf evs a = Some a'" and "\<forall>e\<in>set evs. \<not> is_submitted e"
  shows "newConversationIdRef (chatInterface a') = None
     \<or> newConversationIdRef (chatInterface a') = newConversationIdRef (chatInterface a)"
  using assms
proof (induction evs arbitrary: a)
  case Nil
  then show ?case by simp
next
  case (Cons e evs)
  from Cons.prems obtain b where b: "step pf e a = Some b" and r: "run pf evs b = Some a'"
    by (auto split: option.splits)
  from Cons.prems have "\<not> is_submitted e" and rest: "\<forall>e\<in>set evs. \<not> is_submitted e" by auto
  from anchor_step [OF b this(1)] Cons.IH [OF r rest] show ?case by auto
qed

text \<open>
  C10. Every call of \<open>sendMessage\<close> sets the anchor to null before it submits, and the
  answer to a submission sets the anchor only if that submission was made from the draft
  state, to the conversation id of that answer. Hence, if no other submission is answered
  between the reset of some call and the answer that starts a job's polling, then at that
  moment, and from then on until the next submission is answered, the anchor is null or
  the conversation id returned by that job's own submission, the latter only for a
  submission from the draft state.
\<close>

theorem anchor_is_own_submission:
  assumes "run pf evs (sendMessage_begin pf ChatInterface now c a) = Some g"
      and "\<forall>e\<in>set evs. \<not> is_submitted e"
      and "n < length (inflight g)"
      and "inflight g ! n = (ChatInterface, T_sendMessage c' sel)"
      and "step pf (Reply n (Submitted jobId cid) now') g = Some k"
      and "run pf evs' k = Some g'"
      and "\<forall>e\<in>set evs'. \<not> is_submitted e"
  shows "newConversationIdRef (chatInterface (sendMessage_begin pf ChatInterface now c a)) = None
     \<and> newConversationIdRef (chatInterface g) = None
     \<and> newConversationIdRef (chatInterface k) = (if sel = None then Some cid else None)
     \<and> pollingIntervalRef (chatInterface k) = Some (nextHandle g)
     \<and> (nextHandle g, ChatInterface, jobId, sel) \<in> set (intervals k)
     \<and> (newConversationIdRef (chatInterface g') = None
          \<or> (sel = None \<and> newConversationIdRef (chatInterface g') = Some cid))"
proof -
  let ?g = "g\<lparr>inflight := take n (inflight g) @ drop (Suc n) (inflight g)\<rparr>"
  have b: "newConversationIdRef (chatInterface (sendMessage_begin pf ChatInterface now c a)) = None"
    by (simp add: sendMessage_begin_def Let_def)
  have g: "newConversationIdRef (chatInterface g) = None"
    using anchor_run [OF assms(1,2)] b by auto
  have k: "k = sendMessage_resume pf ChatInterface now' (Some (jobId, cid)) sel ?g"
    using assms(3,4,5) by (simp add: resume_def)
  have nh: "nextHandle (clearPolling ChatInterface x) = nextHandle x" for x
    by (simp add: clearPolling_def clearInterval_def set_pollingIntervalRef_def
        split: option.splits)
  have r: "newConversationIdRef (chatInterface k) = (if sel = None then Some cid else None)"
    using g by (simp add: k sendMessage_resume_def startPolling_def Let_def
        set_pollingIntervalRef_def)
  have p: "pollingIntervalRef (chatInterface k) = Some (nextHandle g)"
    by (simp add: k sendMessage_resume_def startPolling_def Let_def nh dispatch_def
        set_pollingIntervalRef_def set_newConversationIdRef_def)
  have iv: "(nextHandle g, ChatInterface, jobId, sel) \<in> set (intervals k)"
    by (simp add: k sendMessage_resume_def startPolling_def Let_def nh dispatch_def
        set_pollingIntervalRef_def set_newConversationIdRef_def)
  have l: "newConversationIdRef (chatInterface g') = None
      \<or> (sel = None \<and> newConversationIdRef (chatInterface g') = Some cid)"
    using anchor_run [OF assms(6,7)] r by (auto split: if_splits)
  from b g r p iv l show ?thesis by blast
qed

theorem anchor_is_own_submission_witness:
  "\<exists>g k g'. run example_platform [FetchHistory]
              (sendMessage_begin example_platform ChatInterface 100 ''q'' init_app) = Some g
     \<and> \<not> is_submitted FetchHistory
     \<and> 0 < length (inflight g) \<and> inflight g ! 0 = (ChatInterface, T_sendMessage ''q'' None)
     \<and> step example_platform (Reply 0 (Submitted ''j1'' 42) 101) g = Some k
     \<and> run example_platform [Fire 1, Reply 1 (JobStatus ''running'' 30 ''plan'') 102] k = Some g'
     \<and> \<not> is_submitted (Fire 1) \<and> \<not> is_submitted (Reply 1 (JobStatus ''running'' 30 ''plan'') 102)
     \<and> newConversationIdRef (chatInterface g) = None
     \<and> newConversationIdRef (chatInterface k) = Some 42
     \<and> pollingIntervalRef (chatInterface k) = Some 1
     \<and> newConversationIdRef (chatInterface g') = Some 42"
proof -
  have "\<exists>g k g'. run example_platform [FetchHistory]
              (sendMessage_begin example_platform ChatInterface 100 ''q'' init_app) = Some g
     \<and> 0 < length (inflight g) \<and> inflight g ! 0 = (ChatInterface, T_sendMessage ''q'' None)
     \<and> nextHandle g = 1
     \<and> step example_platform (Reply 0 (Submitted ''j1'' 42) 101) g = Some k
     \<and> run example_platform [Fire 1, Reply 1 (JobStatus ''running'' 30 ''plan'') 102] k = Some g'
     \<and> newConversationIdRef (chatInterface g') = Some 42"
    by (simp add: eval_defs)
  then obtain g k g' where g: "run example_platform [FetchHistory]
              (sendMessage_begin example_platform ChatInterface 100 ''q'' init_app) = Some g"
    and l: "0 < length (inflight g)"
    and t: "inflight g ! 0 = (ChatInterface, T_sendMessage ''q'' None)"
    and n: "nextHandle g = 1"
    and k: "step example_platform (Reply 0 (Submitted ''j1'' 42) 101) g = Some k"
    and g': "run example_platform [Fire 1, Reply 1 (JobStatus ''running'' 30 ''plan'') 102] k = Some g'"
    and a: "newConversationIdRef (chatInterface g') = Some 42" by blast
  have e1: "\<forall>e\<in>set [FetchHistory]. \<not> is_submitted e" by simp
  have e2: "\<forall>e\<in>set [Fire 1, Reply 1 (JobStatus ''running'' 30 ''plan'') 102]. \<not> is_submitted e"
    by simp
  from anchor_is_own_submission [OF g e1 l t k g' e2] g l t n k g' a show ?thesis
    by auto
qed

text \<open>
  Without the condition the anchor can be another submission's. In the run
  \<open>overlapping_sends\<close> message \<open>a\<close> is sent from the draft state, and before it is
  answered the user selects conversation 5 and sends message \<open>b\<close>; each of the three
  messages of the run is sent while the sending flag is false. The answer to \<open>a\<close> sets
  the anchor to 42; the answer to \<open>b\<close>, for conversation 5, leaves it, so the polling of
  job \<open>j2\<close> begins with the anchor of job \<open>j1\<close>, and its terminal tick selects
  conversation 42.
\<close>

theorem anchor_leftover_counterexample:
  "run example_platform overlapping_sends init_app
   = Some \<lparr> state =
       \<lparr> conversations = [conv5, conv7], selectedConversationId = Some 5,
         messages =
           [\<lparr> msg_id = ''200'', content = ''b'', isUser = True, timestamp = ''12:00:00'',
              contentType = None, filePath = None, msg_error = None \<rparr>],
         isLoadingHistory = False, isLoadingMessages = False, isSendingMessage = True,
         currentJobId = Some ''j2'', currentJobProgress = inactiveProgress, error = None \<rparr>,
       sidebar = \<lparr> pollingIntervalRef = None, newConversationIdRef = None \<rparr>,
       chatInterface = \<lparr> pollingIntervalRef = Some 3, newConversationIdRef = Some 42 \<rparr>,
       intervals = [(3, ChatInterface, ''j2'', Some 5)], nextHandle = 4, inflight = [] \<rparr>
   \<and> run example_platform
         (overlapping_sends @ [Fire 3, Reply 0 (JobStatus ''completed'' 100 ''done'') 203])
         init_app
   = Some \<lparr> state =
       \<lparr> conversations = [conv5, conv7], selectedConversationId = Some 42,
         messages =
           [\<lparr> msg_id = ''200'', content = ''b'', isUser = True, timestamp = ''12:00:00'',
              contentType = None, filePath = None, msg_error = None \<rparr>],
         isLoadingHistory = False, isLoadingMessages = True, isSendingMessage = False,
         currentJobId = Some ''j2'',
         currentJobProgress = \<lparr> isActive = True, progress = 100, stage = ''done'' \<rparr>,
         error = None \<rparr>,
       sidebar = \<lparr> pollingIntervalRef = None, newConversationIdRef = None \<rparr>,
       chatInterface = \<lparr> pollingIntervalRef = None, newConversationIdRef = Some 42 \<rparr>,
       intervals = [], nextHandle = 4,
       inflight = [(ChatInterface, T_selectConversation 42 (K_tick_selected 42))] \<rparr>
   \<and> map_option (isSendingMessage \<circ> state)
         (run example_platform (take 4 overlapping_sends) init_app) = Some False
   \<and> map_option (isSendingMessage \<circ> state)
         (run example_platform (take 10 overlapping_sends) init_app) = Some False
   \<and> map_option (isSendingMessage \<circ> state)
         (run example_platform (take 14 overlapping_sends) init_app) = Some False
   \<and> overlapping_sends ! 4 = SendMessage ''z'' 50
   \<and> overlapping_sends ! 10 = SendMessage ''a'' 100
   \<and> overlapping_sends ! 14 = SendMessage ''b'' 200"
  by (simp add: eval_defs overlapping_sends_def)

section \<open>Selecting a conversation\<close>

text \<open>
  C5. For every conversation id, \<open>selectConversation\<close> leaves the message list as it was
  while the request is in flight, and when the messages arrive the message list is exactly
  the server's list with \<open>convertApiMessage\<close> applied to each element, in one transition
  and whatever the list held before. This is so in whatever state the answer arrives and
  also for the call made by the interval callback.
\<close>

theorem selectConversation_replaces_messages:
  "(\<exists>a1 a2. step pf (SelectConversation n) a = Some a1
       \<and> step pf (Reply (length (inflight a)) (Messages ms) now) a1 = Some a2
       \<and> messages (state a1) = messages (state a)
       \<and> messages (state a2) = map (convertApiMessage pf) ms
       \<and> selectedConversationId (state a2) = Some n)
   \<and> (\<forall>i k b. messages (state (selectConversation_resume pf i (Some ms) k b))
         = map (convertApiMessage pf) ms)"
proof -
  have c: "messages (state (continue i k b)) = messages (state b)" for i k b
    by (cases k; cases i) (simp_all add: seg_defs)
  have x: "\<forall>i k b. messages (state (selectConversation_resume pf i (Some ms) k b))
         = map (convertApiMessage pf) ms"
    by (simp add: selectConversation_resume_def c dispatch_def)
  have y: "\<exists>a1 a2. step pf (SelectConversation n) a = Some a1
       \<and> step pf (Reply (length (inflight a)) (Messages ms) now) a1 = Some a2
       \<and> messages (state a1) = messages (state a)
       \<and> messages (state a2) = map (convertApiMessage pf) ms
       \<and> selectedConversationId (state a2) = Some n"
    by (simp add: resume_def seg_defs Let_def)
  from x y show ?thesis by blast
qed

section \<open>Fetching the history\<close>

text \<open>
  C8. \<open>fetchHistory\<close> is idempotent: two calls against the same answer, one after the
  other or both in flight at once, leave the application in the state one call leaves it
  in, and the conversation list is the server's list. When the request fails the error is
  set and the conversation list is the one before the call.
\<close>

theorem fetchHistory_idempotent:
  "run pf [FetchHistory, Reply (length (inflight a)) (Conversations cs) t1,
           FetchHistory, Reply (length (inflight a)) (Conversations cs) t2] a
     = run pf [FetchHistory, Reply (length (inflight a)) (Conversations cs) t1] a
   \<and> run pf [FetchHistory, FetchHistory, Reply (length (inflight a)) (Conversations cs) t1,
             Reply (length (inflight a)) (Conversations cs) t2] a
     = run pf [FetchHistory, Reply (length (inflight a)) (Conversations cs) t1] a
   \<and> (\<exists>a'. run pf [FetchHistory, Reply (length (inflight a)) (Conversations cs) t1] a = Some a'
         \<and> conversations (state a') = cs)
   \<and> (\<exists>a'. run pf [FetchHistory, Reply (length (inflight a)) Failed t1] a = Some a'
         \<and> conversations (state a') = conversations (state a)
         \<and> error (state a') = Some err_fetchHistory)"
  by (simp add: resume_def seg_defs Let_def nth_append)

section \<open>Deleting a conversation\<close>

text \<open>
  C2. \<open>deleteConversation\<close> removes the conversation from the list before the server
  answers. When the server call fails, the list is restored to its value before the call
  and the error is set, and the selection and the message list are as they were before the
  call: a deleted conversation that was selected stays selected, with its messages. Only
  when the server call succeeds are the selection and the messages cleared, if the deleted
  conversation was the selected one.
\<close>

theorem deleteConversation_rollback_keeps_selection:
  "(\<exists>a1 a2. step pf (DeleteConversation n) a = Some a1
       \<and> step pf (Reply (length (inflight a)) Failed now) a1 = Some a2
       \<and> conversations (state a1)
           = filter (\<lambda>conv. conv_id conv \<noteq> n) (conversations (state a))
       \<and> conversations (state a2) = conversations (state a)
       \<and> selectedConversationId (state a2) = selectedConversationId (state a)
       \<and> messages (state a2) = messages (state a)
       \<and> error (state a2) = Some err_deleteConversation)
   \<and> (\<exists>a1 a2. step pf (DeleteConversation n) a = Some a1
       \<and> step pf (Reply (length (inflight a)) Deleted now) a1 = Some a2
       \<and> conversations (state a2)
           = filter (\<lambda>conv. conv_id conv \<noteq> n) (conversations (state a))
       \<and> selectedConversationId (state a2)
           = (if selectedConversationId (state a) = Some n then None
              else selectedConversationId (state a))
       \<and> messages (state a2)
           = (if selectedConversationId (state a) = Some n then [] else messages (state a)))"
  by (simp add: resume_def seg_defs Let_def)

text \<open>
  The history holds conversations 5 and 7, conversation 7 is selected with one message,
  and its deletion fails: the list is restored, and conversation 7 is still selected with
  its message.
\<close>

theorem deleteConversation_failure_counterexample:
  "run example_platform
     [FetchHistory, Reply 0 (Conversations [conv5, conv7]) 1,
      SelectConversation 7, Reply 0 (Messages [wire7]) 2,
      DeleteConversation 7, Reply 0 Failed 3] init_app
   = Some \<lparr> state =
       \<lparr> conversations = [conv5, conv7], selectedConversationId = Some 7,
         messages =
           [\<lparr> msg_id = ''11'', content = ''revenue 2023'', isUser = True,
              timestamp = ''2025-01-03T10:00:00'', contentType = Some ''text'',
              filePath = None, msg_error = None \<rparr>],
         isLoadingHistory = False, isLoadingMessages = False, isSendingMessage = False,
         currentJobId = None, currentJobProgress = inactiveProgress,
         error = Some err_deleteConversation \<rparr>,
       sidebar = \<lparr> pollingIntervalRef = None, newConversationIdRef = None \<rparr>,
       chatInterface = \<lparr> pollingIntervalRef = None, newConversationIdRef = None \<rparr>,
       intervals = [], nextHandle = 1, inflight = [] \<rparr>"
  by (simp add: eval_defs)

section \<open>Sending a message\<close>



section \<open>The message formatter\<close>

text \<open>
  C9. \<open>convertApiMessage\<close> is a function of the wire message alone (and of the runtime's
  number and date formatting): the id is the number's string, content and sender are
  copied, the timestamp is rendered to the locale time string, and the error is absent.
  A content type and a file path that are non-empty strings are passed through unchanged,
  whatever their value; \<open>null\<close> and the empty string both become absent.
\<close>

theorem convertApiMessage_fields:
  "msg_id (convertApiMessage pf m) = Number_toString pf (api_id m)
   \<and> content (convertApiMessage pf m) = api_content m
   \<and> isUser (convertApiMessage pf m) = is_from_user m
   \<and> timestamp (convertApiMessage pf m) = Date_toLocaleTimeString pf (api_timestamp m)
   \<and> contentType (convertApiMessage pf m)
       = (if content_type m = Some [] then None else content_type m)
   \<and> filePath (convertApiMessage pf m)
       = (if file_path m = Some [] then None else file_path m)
   \<and> msg_error (convertApiMessage pf m) = None"
  by (simp add: convertApiMessage_def or_undefined_def split: option.splits)

text \<open>A wire message whose content type is the empty string: the content type of the
  formatted message is absent, not the empty string.\<close>

theorem convertApiMessage_empty_contentType_counterexample:
  "content_type wire_empty_type = Some []
   \<and> contentType (convertApiMessage example_platform wire_empty_type) = None
   \<and> contentType (convertApiMessage example_platform wire_empty_type)
       \<noteq> content_type wire_empty_type"
  by (simp add: wire_empty_type_def convertApiMessage_def or_undefined_def)

end
